theory Spec2Isabelle
  imports Complex_Main
begin

section \<open>JavaScript numbers\<close>

text \<open>
  A JavaScript \<^verbatim>\<open>number\<close> is modelled as a real number or one of the three special
  values \<^verbatim>\<open>NaN\<close>, \<^verbatim>\<open>-Infinity\<close>, \<^verbatim>\<open>Infinity\<close>. Arithmetic on finite values is exact
  (the rounding of IEEE-754 doubles is not modelled, and the two zeros are one value);
  the special values follow the language: every comparison with \<^verbatim>\<open>NaN\<close> is false and
  \<^verbatim>\<open>NaN\<close> propagates through arithmetic. Every comparison the program branches on
  (a coordinate against its bound, two time values, a time difference against zero) is
  exact on doubles as well, so the control flow of the model is that of the program.
  The distance, the speed and the flag computed from them are those of exact
  arithmetic: what rounding does to them on doubles is outside the model.
\<close>

datatype number = NaN | NInf | Fin real | PInf

text \<open>The relational operators \<^verbatim>\<open><\<close>, \<^verbatim>\<open><=\<close>, \<^verbatim>\<open>>\<close> and strict equality \<^verbatim>\<open>===\<close>.\<close>

fun num_lt :: "number \<Rightarrow> number \<Rightarrow> bool" where
  "num_lt NaN _ = False"
| "num_lt _ NaN = False"
| "num_lt _ NInf = False"
| "num_lt NInf _ = True"
| "num_lt PInf _ = False"
| "num_lt (Fin x) (Fin y) = (x < y)"
| "num_lt (Fin x) PInf = True"

fun num_le :: "number \<Rightarrow> number \<Rightarrow> bool" where
  "num_le NaN _ = False"
| "num_le _ NaN = False"
| "num_le NInf _ = True"
| "num_le _ PInf = True"
| "num_le PInf _ = False"
| "num_le (Fin x) NInf = False"
| "num_le (Fin x) (Fin y) = (x \<le> y)"

definition num_gt :: "number \<Rightarrow> number \<Rightarrow> bool" where
  "num_gt a b = num_lt b a"

definition num_eq :: "number \<Rightarrow> number \<Rightarrow> bool" where
  "num_eq a b = (a \<noteq> NaN \<and> a = b)"

text \<open>The arithmetic operators: unary minus, \<^verbatim>\<open>+\<close>, \<^verbatim>\<open>-\<close>, \<^verbatim>\<open>*\<close>, \<^verbatim>\<open>/\<close> and \<^verbatim>\<open>** 2\<close>.\<close>

fun num_neg :: "number \<Rightarrow> number" where
  "num_neg NaN = NaN"
| "num_neg NInf = PInf"
| "num_neg PInf = NInf"
| "num_neg (Fin x) = Fin (- x)"

fun num_add :: "number \<Rightarrow> number \<Rightarrow> number" where
  "num_add NaN _ = NaN"
| "num_add _ NaN = NaN"
| "num_add PInf NInf = NaN"
| "num_add NInf PInf = NaN"
| "num_add PInf _ = PInf"
| "num_add _ PInf = PInf"
| "num_add NInf _ = NInf"
| "num_add _ NInf = NInf"
| "num_add (Fin x) (Fin y) = Fin (x + y)"

definition num_sub :: "number \<Rightarrow> number \<Rightarrow> number" where
  "num_sub a b = num_add a (num_neg b)"

text \<open>The sign of an infinite product or quotient: positive iff both signs agree.\<close>

definition signed_inf :: "bool \<Rightarrow> number" where
  "signed_inf positive = (if positive then PInf else NInf)"

fun num_mul :: "number \<Rightarrow> number \<Rightarrow> number" where
  "num_mul NaN _ = NaN"
| "num_mul _ NaN = NaN"
| "num_mul (Fin x) (Fin y) = Fin (x * y)"
| "num_mul (Fin x) PInf = (if x = 0 then NaN else signed_inf (0 < x))"
| "num_mul (Fin x) NInf = (if x = 0 then NaN else signed_inf (x < 0))"
| "num_mul PInf (Fin y) = (if y = 0 then NaN else signed_inf (0 < y))"
| "num_mul NInf (Fin y) = (if y = 0 then NaN else signed_inf (y < 0))"
| "num_mul PInf PInf = PInf"
| "num_mul NInf NInf = PInf"
| "num_mul PInf NInf = NInf"
| "num_mul NInf PInf = NInf"

text \<open>Division by the (positive) zero gives an infinity of the dividend's sign.\<close>

fun num_div :: "number \<Rightarrow> number \<Rightarrow> number" where
  "num_div NaN _ = NaN"
| "num_div _ NaN = NaN"
| "num_div (Fin x) (Fin y) =
     (if y = 0 then (if x = 0 then NaN else signed_inf (0 < x)) else Fin (x / y))"
| "num_div (Fin x) PInf = Fin 0"
| "num_div (Fin x) NInf = Fin 0"
| "num_div PInf (Fin y) = signed_inf (0 \<le> y)"
| "num_div NInf (Fin y) = signed_inf (y < 0)"
| "num_div PInf PInf = NaN"
| "num_div NInf NInf = NaN"
| "num_div PInf NInf = NaN"
| "num_div NInf PInf = NaN"

definition num_sq :: "number \<Rightarrow> number" where
  "num_sq a = num_mul a a"

text \<open>The functions of \<^verbatim>\<open>Math\<close> the program calls.\<close>

definition Math_PI :: number where
  "Math_PI = Fin pi"

fun Math_sin :: "number \<Rightarrow> number" where
  "Math_sin (Fin x) = Fin (sin x)"
| "Math_sin _ = NaN"

fun Math_cos :: "number \<Rightarrow> number" where
  "Math_cos (Fin x) = Fin (cos x)"
| "Math_cos _ = NaN"

fun Math_sqrt :: "number \<Rightarrow> number" where
  "Math_sqrt NaN = NaN"
| "Math_sqrt NInf = NaN"
| "Math_sqrt PInf = PInf"
| "Math_sqrt (Fin x) = (if x < 0 then NaN else Fin (sqrt x))"

text \<open>The angle of the point \<open>(x, y)\<close>, in \<open>(-\<pi>, \<pi>]\<close>.\<close>

definition atan2_real :: "real \<Rightarrow> real \<Rightarrow> real" where
  "atan2_real y x =
     (if 0 < x then arctan (y / x)
      else if x < 0 then (if 0 \<le> y then arctan (y / x) + pi else arctan (y / x) - pi)
      else if 0 < y then pi / 2
      else if y < 0 then - (pi / 2)
      else 0)"

fun Math_atan2 :: "number \<Rightarrow> number \<Rightarrow> number" where
  "Math_atan2 NaN _ = NaN"
| "Math_atan2 _ NaN = NaN"
| "Math_atan2 (Fin y) (Fin x) = Fin (atan2_real y x)"
| "Math_atan2 (Fin y) PInf = Fin 0"
| "Math_atan2 (Fin y) NInf = Fin (if 0 \<le> y then pi else - pi)"
| "Math_atan2 PInf (Fin x) = Fin (pi / 2)"
| "Math_atan2 NInf (Fin x) = Fin (- (pi / 2))"
| "Math_atan2 PInf PInf = Fin (pi / 4)"
| "Math_atan2 PInf NInf = Fin (3 * pi / 4)"
| "Math_atan2 NInf PInf = Fin (- (pi / 4))"
| "Math_atan2 NInf NInf = Fin (- (3 * pi / 4))"

section \<open>Errors\<close>

text \<open>
  The program throws \<^verbatim>\<open>Error\<close> objects told apart by their message: one for a timestamp
  that is no \<^verbatim>\<open>Date\<close>, one for a latitude and one for a longitude out of range (each
  message carries the offending value). \<^verbatim>\<open>Number.prototype.toFixed\<close> throws a
  \<^verbatim>\<open>RangeError\<close> when asked for fewer than 0 or more than 100 digits.
\<close>

datatype error =
    InvalidTimestamp
  | InvalidLatitude number
  | InvalidLongitude number
  | RangeError

fun isInvalidCoordinate :: "error \<Rightarrow> bool" where
  "isInvalidCoordinate (InvalidLatitude _) = True"
| "isInvalidCoordinate (InvalidLongitude _) = True"
| "isInvalidCoordinate _ = False"

section \<open>Output rounding\<close>

text \<open>
  \<^verbatim>\<open>parseFloat(x.toFixed(digits))\<close>. \<^verbatim>\<open>toFixed\<close> first checks the digit count, then
  prints a value that is not finite by name and a value of magnitude \<open>10\<^sup>2\<^sup>1\<close> or more
  in full; otherwise it prints \<open>n / 10\<^sup>f\<close> for the integer \<open>n\<close> closest to
  \<open>x \<sqdot> 10\<^sup>f\<close>, the larger \<open>n\<close> on a tie, working on the magnitude and putting the sign back.
  \<^verbatim>\<open>parseFloat\<close> reads the printed value back. The argument \<open>digits\<close> is the digit count
  after \<^verbatim>\<open>toFixed\<close> has truncated it to an integer.
\<close>

definition roundMagnitude :: "real \<Rightarrow> nat \<Rightarrow> real" where
  "roundMagnitude x f = real_of_int \<lfloor>x * 10 ^ f + 1 / 2\<rfloor> / 10 ^ f"

fun roundNumber :: "number \<Rightarrow> nat \<Rightarrow> number" where
  "roundNumber (Fin x) f =
     (if 10 ^ 21 \<le> \<bar>x\<bar> then Fin x
      else if x < 0 then Fin (- roundMagnitude (- x) f)
      else Fin (roundMagnitude x f))"
| "roundNumber n f = n"

definition toFixed :: "number \<Rightarrow> int \<Rightarrow> error + number" where
  "toFixed x digits =
     (if digits < 0 \<or> 100 < digits then Inl RangeError
      else Inr (roundNumber x (nat digits)))"

section \<open>Data\<close>

text \<open>
  The field \<^verbatim>\<open>timestamp\<close> is declared a \<^verbatim>\<open>Date\<close>, and the program tests it with
  \<^verbatim>\<open>instanceof Date\<close>, so the model keeps the values that are no \<^verbatim>\<open>Date\<close> at all. A
  \<^verbatim>\<open>Date\<close> holds a time value: a whole number of milliseconds since the epoch, or
  \<^verbatim>\<open>NaN\<close> (an "Invalid Date", as made by \<^verbatim>\<open>new Date("garbage")\<close>), here \<open>None\<close>.
\<close>

datatype timestamp = Date "int option" | NotADate

fun instanceofDate :: "timestamp \<Rightarrow> bool" where
  "instanceofDate (Date _) = True"
| "instanceofDate NotADate = False"

text \<open>\<^verbatim>\<open>getTime\<close> is only called behind the \<^verbatim>\<open>instanceof\<close> test.\<close>

fun getTime :: "timestamp \<Rightarrow> number" where
  "getTime (Date (Some t)) = Fin (real_of_int t)"
| "getTime (Date None) = NaN"
| "getTime NotADate = NaN"

record LoginEvent =
  timestamp :: timestamp
  latitude :: number
  longitude :: number

record TravelPossibility =
  possible :: bool
  requiredSpeedKmh :: number
  maxAllowedSpeedKmh :: number
  distanceKm :: number
  timeDifferenceMinutes :: number

section \<open>The program\<close>

text \<open>
  The functions of \<^verbatim>\<open>index.ts\<close>, in its order. \<^verbatim>\<open>isTravelPossible\<close> takes its two
  optional parameters explicitly; a caller that leaves them out passes
  \<open>DEFAULT_MAX_SPEED_KMH\<close> and 2.
\<close>

definition EARTH_RADIUS_KM :: number where
  "EARTH_RADIUS_KM = Fin 6371"

definition DEFAULT_MAX_SPEED_KMH :: number where
  "DEFAULT_MAX_SPEED_KMH = Fin 1200"

definition validateCoordinates :: "number \<Rightarrow> number \<Rightarrow> error + unit" where
  "validateCoordinates lat lon =
     (if num_lt lat (Fin (- 90)) \<or> num_gt lat (Fin 90) then Inl (InvalidLatitude lat)
      else if num_lt lon (Fin (- 180)) \<or> num_gt lon (Fin 180) then Inl (InvalidLongitude lon)
      else Inr ())"

definition toRadians :: "number \<Rightarrow> number" where
  "toRadians degrees = num_mul degrees (num_div Math_PI (Fin 180))"

definition haversineDistance :: "number \<Rightarrow> number \<Rightarrow> number \<Rightarrow> number \<Rightarrow> error + number" where
  "haversineDistance lat1 lon1 lat2 lon2 =
     (case validateCoordinates lat1 lon1 of
        Inl e \<Rightarrow> Inl e
      | Inr _ \<Rightarrow>
     (case validateCoordinates lat2 lon2 of
        Inl e \<Rightarrow> Inl e
      | Inr _ \<Rightarrow>
        let dLat = toRadians (num_sub lat2 lat1);
            dLon = toRadians (num_sub lon2 lon1);
            lat1Rad = toRadians lat1;
            lat2Rad = toRadians lat2;
            a = num_add (num_sq (Math_sin (num_div dLat (Fin 2))))
                  (num_mul (num_mul (num_sq (Math_sin (num_div dLon (Fin 2))))
                              (Math_cos lat1Rad))
                           (Math_cos lat2Rad));
            c = num_mul (Fin 2) (Math_atan2 (Math_sqrt a) (Math_sqrt (num_sub (Fin 1) a)))
        in Inr (num_mul EARTH_RADIUS_KM c)))"

definition calculateRequiredSpeed :: "number \<Rightarrow> number \<Rightarrow> number" where
  "calculateRequiredSpeed distKm timeMinutes =
     (if num_le timeMinutes (Fin 0) then PInf
      else let timeHours = num_div timeMinutes (Fin 60)
           in num_div distKm timeHours)"

definition isTravelPossible ::
    "LoginEvent \<Rightarrow> LoginEvent \<Rightarrow> number \<Rightarrow> int \<Rightarrow> error + TravelPossibility" where
  "isTravelPossible login1 login2 maxSpeedKmh decimalPrecision =
     (if \<not> instanceofDate (timestamp login1) \<or> \<not> instanceofDate (timestamp login2)
      then Inl InvalidTimestamp
      else
        let earlierLogin =
              (if num_le (getTime (timestamp login1)) (getTime (timestamp login2))
               then login1 else login2);
            laterLogin =
              (if num_gt (getTime (timestamp login1)) (getTime (timestamp login2))
               then login1 else login2);
            timeDiffMs = num_sub (getTime (timestamp laterLogin))
                                 (getTime (timestamp earlierLogin));
            timeDiffMinutes = num_div timeDiffMs (Fin (1000 * 60))
        in
          if num_eq timeDiffMinutes (Fin 0) then
            (let sameLocation =
                   (num_eq (latitude earlierLogin) (latitude laterLogin) \<and>
                    num_eq (longitude earlierLogin) (longitude laterLogin))
             in
               if sameLocation then
                 Inr \<lparr> possible = True,
                       requiredSpeedKmh = Fin 0,
                       maxAllowedSpeedKmh = maxSpeedKmh,
                       distanceKm = Fin 0,
                       timeDifferenceMinutes = Fin 0 \<rparr>
               else
                 (case haversineDistance (latitude earlierLogin) (longitude earlierLogin)
                         (latitude laterLogin) (longitude laterLogin) of
                    Inl e \<Rightarrow> Inl e
                  | Inr distKm \<Rightarrow>
                 (case toFixed distKm decimalPrecision of
                    Inl e \<Rightarrow> Inl e
                  | Inr distOut \<Rightarrow>
                      Inr \<lparr> possible = False,
                            requiredSpeedKmh = PInf,
                            maxAllowedSpeedKmh = maxSpeedKmh,
                            distanceKm = distOut,
                            timeDifferenceMinutes = Fin 0 \<rparr>)))
          else
            (case haversineDistance (latitude earlierLogin) (longitude earlierLogin)
                    (latitude laterLogin) (longitude laterLogin) of
               Inl e \<Rightarrow> Inl e
             | Inr distKm \<Rightarrow>
                 let requiredSpeed = calculateRequiredSpeed distKm timeDiffMinutes;
                     feasible = num_le requiredSpeed maxSpeedKmh
                 in
                (case toFixed requiredSpeed decimalPrecision of
                   Inl e \<Rightarrow> Inl e
                 | Inr speedOut \<Rightarrow>
                (case toFixed distKm decimalPrecision of
                   Inl e \<Rightarrow> Inl e
                 | Inr distOut \<Rightarrow>
                (case toFixed timeDiffMinutes decimalPrecision of
                   Inl e \<Rightarrow> Inl e
                 | Inr timeOut \<Rightarrow>
                     Inr \<lparr> possible = feasible,
                           requiredSpeedKmh = speedOut,
                           maxAllowedSpeedKmh = maxSpeedKmh,
                           distanceKm = distOut,
                           timeDifferenceMinutes = timeOut \<rparr>)))))"

section \<open>Valid observations\<close>

text \<open>
  The specification's valid observation: a timestamp that is a \<^verbatim>\<open>Date\<close> holding a time
  value, a latitude in \<open>[-90, 90]\<close> and a longitude in \<open>[-180, 180]\<close>. A coordinate that
  is \<^verbatim>\<open>NaN\<close> or infinite is not valid.
\<close>

definition validLatitude :: "number \<Rightarrow> bool" where
  "validLatitude lat = (num_le (Fin (- 90)) lat \<and> num_le lat (Fin 90))"

definition validLongitude :: "number \<Rightarrow> bool" where
  "validLongitude lon = (num_le (Fin (- 180)) lon \<and> num_le lon (Fin 180))"

fun validTimestamp :: "timestamp \<Rightarrow> bool" where
  "validTimestamp (Date (Some t)) = True"
| "validTimestamp _ = False"

definition validObservation :: "LoginEvent \<Rightarrow> bool" where
  "validObservation ev =
     (validTimestamp (timestamp ev) \<and> validLatitude (latitude ev) \<and>
      validLongitude (longitude ev))"

text \<open>
  The value of the local \<^verbatim>\<open>a\<close> of \<^verbatim>\<open>haversineDistance\<close> on finite coordinates in degrees,
  used in the proofs only.
\<close>

definition haversine_a :: "real \<Rightarrow> real \<Rightarrow> real \<Rightarrow> real \<Rightarrow> real" where
  "haversine_a lat1 lon1 lat2 lon2 =
     (sin ((lat2 - lat1) * (pi / 180) / 2))\<^sup>2 +
     (sin ((lon2 - lon1) * (pi / 180) / 2))\<^sup>2 *
       cos (lat1 * (pi / 180)) * cos (lat2 * (pi / 180))"

section \<open>The great-circle distance\<close>

lemma sin_half_squared: "(sin (w / 2))\<^sup>2 = (1 - cos w) / (2::real)"
  using cos_double_sin [of "w / 2"] by simp

lemma cos_lat_nonneg:
  assumes "- 90 \<le> x" "x \<le> 90"
  shows "0 \<le> cos (x * (pi / 180))"
proof (rule cos_ge_zero)
  have "pi * (- 90) \<le> pi * x" "pi * x \<le> pi * 90"
    using assms by (intro mult_left_mono; simp)+
  then show "- (pi / 2) \<le> x * (pi / 180)" "x * (pi / 180) \<le> pi / 2"
    by (simp_all add: field_simps)
qed

lemma haversine_a_nonneg:
  assumes "- 90 \<le> lat1" "lat1 \<le> 90" "- 90 \<le> lat2" "lat2 \<le> 90"
  shows "0 \<le> haversine_a lat1 lon1 lat2 lon2"
  unfolding haversine_a_def
  using cos_lat_nonneg [OF assms(1,2)] cos_lat_nonneg [OF assms(3,4)]
  by (intro add_nonneg_nonneg mult_nonneg_nonneg) simp_all

lemma haversine_a_le_1:
  assumes "- 90 \<le> lat1" "lat1 \<le> 90" "- 90 \<le> lat2" "lat2 \<le> 90"
  shows "haversine_a lat1 lon1 lat2 lon2 \<le> 1"
proof -
  define p where "p = lat1 * (pi / 180)"
  define q where "q = lat2 * (pi / 180)"
  define d where "d = (lon2 - lon1) * (pi / 180)"
  have qp: "(lat2 - lat1) * (pi / 180) = q - p" by (simp add: p_def q_def left_diff_distrib)
  have cc: "0 \<le> cos p * cos q"
    using cos_lat_nonneg [OF assms(1,2)] cos_lat_nonneg [OF assms(3,4)]
    by (simp add: p_def q_def)
  have a: "haversine_a lat1 lon1 lat2 lon2 =
      (1 - cos (q - p)) / 2 + (1 - cos d) / 2 * (cos p * cos q)"
    unfolding haversine_a_def qp sin_half_squared
    by (simp add: p_def q_def d_def sin_half_squared)
  have "- (cos p * cos q) \<le> cos d * (cos p * cos q)"
    using mult_right_mono [OF cos_ge_minus_one [of d] cc] by simp
  moreover have "cos (p + q) \<le> 1" by simp
  ultimately have "0 \<le> 1 + sin p * sin q + cos d * (cos p * cos q)"
    by (simp add: cos_add)
  moreover have "(1 - cos (q - p)) / 2 + (1 - cos d) / 2 * (cos p * cos q) =
      1 - (1 + sin p * sin q + cos d * (cos p * cos q)) / 2"
    by (simp add: cos_diff field_simps)
  ultimately show ?thesis
    unfolding a by simp
qed


lemma atan2_real_quadrant:
  assumes "0 \<le> y" "0 \<le> x"
  shows "0 \<le> atan2_real y x" "atan2_real y x \<le> pi / 2"
proof -
  have "0 \<le> arctan (y / x)" if "0 < x" using that assms by simp
  moreover have "arctan (y / x) \<le> pi / 2" using arctan_ubound [of "y / x"] by simp
  ultimately show "0 \<le> atan2_real y x" "atan2_real y x \<le> pi / 2"
    using assms by (auto simp: atan2_real_def)
qed

lemma haversineDistance_Fin:
  assumes "- 90 \<le> lat1" "lat1 \<le> 90" "- 180 \<le> lon1" "lon1 \<le> 180"
      and "- 90 \<le> lat2" "lat2 \<le> 90" "- 180 \<le> lon2" "lon2 \<le> 180"
  shows "haversineDistance (Fin lat1) (Fin lon1) (Fin lat2) (Fin lon2) =
         Inr (Fin (6371 * (2 * atan2_real (sqrt (haversine_a lat1 lon1 lat2 lon2))
                                          (sqrt (1 - haversine_a lat1 lon1 lat2 lon2)))))"
proof -
  have v1: "validateCoordinates (Fin lat1) (Fin lon1) = Inr ()"
    using assms by (simp add: validateCoordinates_def num_gt_def)
  have v2: "validateCoordinates (Fin lat2) (Fin lon2) = Inr ()"
    using assms by (simp add: validateCoordinates_def num_gt_def)
  have a0: "\<not> haversine_a lat1 lon1 lat2 lon2 < 0"
    using haversine_a_nonneg [OF assms(1,2,5,6)] by (simp add: not_less)
  have a1: "\<not> 1 - haversine_a lat1 lon1 lat2 lon2 < 0"
    using haversine_a_le_1 [OF assms(1,2,5,6), of lon1 lon2] by simp
  have rad: "toRadians (Fin x) = Fin (x * (pi / 180))" for x
    by (simp add: toRadians_def Math_PI_def)
  have a: "num_add (num_sq (Math_sin (num_div (toRadians (num_sub (Fin lat2) (Fin lat1))) (Fin 2))))
                  (num_mul (num_mul (num_sq (Math_sin (num_div (toRadians (num_sub (Fin lon2) (Fin lon1))) (Fin 2))))
                              (Math_cos (toRadians (Fin lat1))))
                           (Math_cos (toRadians (Fin lat2))))
        = Fin (haversine_a lat1 lon1 lat2 lon2)"
    by (simp add: rad num_sub_def num_sq_def haversine_a_def power2_eq_square)
  show ?thesis
    unfolding haversineDistance_def v1 v2 Let_def a
    using a0 a1 by (simp add: num_sub_def EARTH_RADIUS_KM_def)
qed

lemma validLatitudeE:
  assumes "validLatitude lat"
  obtains x where "lat = Fin x" "- 90 \<le> x" "x \<le> 90"
  using assms by (cases lat) (simp_all add: validLatitude_def)

lemma validLongitudeE:
  assumes "validLongitude lon"
  obtains y where "lon = Fin y" "- 180 \<le> y" "y \<le> 180"
  using assms by (cases lon) (simp_all add: validLongitude_def)


lemma haversineDistance_valid:
  assumes "validLatitude lat1" "validLongitude lon1" "validLatitude lat2" "validLongitude lon2"
  shows "\<exists>d. 0 \<le> d \<and> d \<le> 6371 * pi \<and> haversineDistance lat1 lon1 lat2 lon2 = Inr (Fin d)"
proof -
  from assms(1) obtain x1 where x1: "lat1 = Fin x1" "- 90 \<le> x1" "x1 \<le> 90" by (rule validLatitudeE)
  from assms(2) obtain y1 where y1: "lon1 = Fin y1" "- 180 \<le> y1" "y1 \<le> 180" by (rule validLongitudeE)
  from assms(3) obtain x2 where x2: "lat2 = Fin x2" "- 90 \<le> x2" "x2 \<le> 90" by (rule validLatitudeE)
  from assms(4) obtain y2 where y2: "lon2 = Fin y2" "- 180 \<le> y2" "y2 \<le> 180" by (rule validLongitudeE)
  define a where "a = haversine_a x1 y1 x2 y2"
  have a: "0 \<le> a" "a \<le> 1"
    using haversine_a_nonneg [of x1 x2 y1 y2] haversine_a_le_1 [of x1 x2 y1 y2] x1 x2
    by (simp_all add: a_def)
  then have q: "0 \<le> atan2_real (sqrt a) (sqrt (1 - a))" "atan2_real (sqrt a) (sqrt (1 - a)) \<le> pi / 2"
    by (intro atan2_real_quadrant; simp)+
  have "haversineDistance lat1 lon1 lat2 lon2 = Inr (Fin (6371 * (2 * atan2_real (sqrt a) (sqrt (1 - a)))))"
    unfolding x1(1) y1(1) x2(1) y2(1) a_def
    using x1 y1 x2 y2 by (intro haversineDistance_Fin)
  with q show ?thesis by simp
qed


section \<open>The branches of the program\<close>

text \<open>
  For two \<^verbatim>\<open>Date\<close>s with time values the program takes the general branch when the
  time values differ, with the observations ordered by time, and the zero-time branch
  when they are equal, with the observations as passed.
\<close>

lemmas branch_defs = isTravelPossible_def num_gt_def num_eq_def num_sub_def Let_def

lemma isTravelPossible_ordered:
  assumes "timestamp e = Date (Some ta)" "timestamp l = Date (Some tb)" "ta < tb"
  shows "isTravelPossible e l m p =
    (case haversineDistance (latitude e) (longitude e) (latitude l) (longitude l) of
       Inl err \<Rightarrow> Inl err
     | Inr dKm \<Rightarrow>
        (case toFixed (calculateRequiredSpeed dKm (Fin (real_of_int (tb - ta) / 60000))) p of
           Inl err \<Rightarrow> Inl err
         | Inr speedOut \<Rightarrow>
        (case toFixed dKm p of
           Inl err \<Rightarrow> Inl err
         | Inr distOut \<Rightarrow>
        (case toFixed (Fin (real_of_int (tb - ta) / 60000)) p of
           Inl err \<Rightarrow> Inl err
         | Inr timeOut \<Rightarrow>
             Inr \<lparr> possible = num_le (calculateRequiredSpeed dKm (Fin (real_of_int (tb - ta) / 60000))) m,
                   requiredSpeedKmh = speedOut,
                   maxAllowedSpeedKmh = m,
                   distanceKm = distOut,
                   timeDifferenceMinutes = timeOut \<rparr>))))"
  using assms by (simp add: branch_defs split: sum.splits)

lemma isTravelPossible_swap_distinct:
  assumes "timestamp e = Date (Some ta)" "timestamp l = Date (Some tb)" "ta \<noteq> tb"
  shows "isTravelPossible l e m p = isTravelPossible e l m p"
  using assms by (simp add: branch_defs split: sum.splits)

lemma isTravelPossible_tie:
  assumes "timestamp e = Date (Some t)" "timestamp l = Date (Some t)"
  shows "isTravelPossible e l m p =
    (if num_eq (latitude e) (latitude l) \<and> num_eq (longitude e) (longitude l) then
       Inr \<lparr> possible = True, requiredSpeedKmh = Fin 0, maxAllowedSpeedKmh = m,
             distanceKm = Fin 0, timeDifferenceMinutes = Fin 0 \<rparr>
     else
       (case haversineDistance (latitude e) (longitude e) (latitude l) (longitude l) of
          Inl err \<Rightarrow> Inl err
        | Inr dKm \<Rightarrow>
       (case toFixed dKm p of
          Inl err \<Rightarrow> Inl err
        | Inr distOut \<Rightarrow>
            Inr \<lparr> possible = False, requiredSpeedKmh = PInf, maxAllowedSpeedKmh = m,
                  distanceKm = distOut, timeDifferenceMinutes = Fin 0 \<rparr>)))"
  using assms by (simp add: branch_defs split: sum.splits)

section \<open>Rounding and speed\<close>



lemma roundMagnitude_digits: "\<exists>n::int. roundMagnitude x f * 10 ^ f = real_of_int n"
  by (simp add: roundMagnitude_def)

lemma roundMagnitude_close: "\<bar>roundMagnitude x f - x\<bar> \<le> 1 / (2 * 10 ^ f)"
proof -
  have "\<bar>real_of_int \<lfloor>x * 10 ^ f + 1 / 2\<rfloor> - x * 10 ^ f\<bar> \<le> 1 / 2"
    by linarith
  then have "\<bar>real_of_int \<lfloor>x * 10 ^ f + 1 / 2\<rfloor> - x * 10 ^ f\<bar> / 10 ^ f \<le> (1 / 2) / 10 ^ f"
    by (intro divide_right_mono) simp_all
  moreover have "roundMagnitude x f - x = (real_of_int \<lfloor>x * 10 ^ f + 1 / 2\<rfloor> - x * 10 ^ f) / 10 ^ f"
    by (simp add: roundMagnitude_def diff_divide_distrib)
  then have "\<bar>roundMagnitude x f - x\<bar> = \<bar>real_of_int \<lfloor>x * 10 ^ f + 1 / 2\<rfloor> - x * 10 ^ f\<bar> / 10 ^ f"
    by (simp only: abs_divide) simp
  ultimately show ?thesis by simp
qed

lemma roundNumber_rounds:
  assumes "\<bar>x\<bar> < 10 ^ 21"
  shows "\<exists>y. roundNumber (Fin x) f = Fin y \<and> (\<exists>n::int. y * 10 ^ f = real_of_int n) \<and>
             \<bar>y - x\<bar> \<le> 1 / (2 * 10 ^ f)"
proof (cases "x < 0")
  case True
  obtain n :: int where n: "roundMagnitude (- x) f * 10 ^ f = real_of_int n"
    using roundMagnitude_digits by blast
  have "- roundMagnitude (- x) f * 10 ^ f = real_of_int (- n)"
    using n by simp
  moreover have "\<bar>- roundMagnitude (- x) f - x\<bar> \<le> 1 / (2 * 10 ^ f)"
    using roundMagnitude_close [of "- x" f] by (simp add: abs_minus_commute)
  moreover have "roundNumber (Fin x) f = Fin (- roundMagnitude (- x) f)"
    using assms True by simp
  ultimately show ?thesis by blast
next
  case False
  then have "roundNumber (Fin x) f = Fin (roundMagnitude x f)"
    using assms by simp
  with roundMagnitude_digits [of x f] roundMagnitude_close [of x f] show ?thesis
    by blast
qed




lemma validObservation_distance:
  assumes "validObservation e" "validObservation l"
  shows "\<exists>d. 0 \<le> d \<and> d \<le> 6371 * pi \<and>
     haversineDistance (latitude e) (longitude e) (latitude l) (longitude l) = Inr (Fin d)"
  using assms by (intro haversineDistance_valid) (simp_all add: validObservation_def)

section \<open>The branches on valid observations\<close>


lemma calculateRequiredSpeed_Fin:
  "0 < mins \<Longrightarrow> calculateRequiredSpeed (Fin d) (Fin mins) = Fin (d / (mins / 60))"
  by (simp add: calculateRequiredSpeed_def)

lemma isTravelPossible_general_valid:
  assumes "validObservation e" "validObservation l"
      and "timestamp e = Date (Some ta)" "timestamp l = Date (Some tb)" "ta < tb"
  shows "\<exists>d. 0 \<le> d \<and>
     haversineDistance (latitude e) (longitude e) (latitude l) (longitude l) = Inr (Fin d) \<and>
     isTravelPossible e l m p =
       (if p < 0 \<or> 100 < p then Inl RangeError
        else Inr \<lparr> possible = num_le (Fin (d / (real_of_int (tb - ta) / 60000 / 60))) m,
                   requiredSpeedKmh =
                     roundNumber (Fin (d / (real_of_int (tb - ta) / 60000 / 60))) (nat p),
                   maxAllowedSpeedKmh = m,
                   distanceKm = roundNumber (Fin d) (nat p),
                   timeDifferenceMinutes =
                     roundNumber (Fin (real_of_int (tb - ta) / 60000)) (nat p) \<rparr>)"
proof -
  from validObservation_distance [OF assms(1,2)] obtain d
    where d: "0 \<le> d"
      "haversineDistance (latitude e) (longitude e) (latitude l) (longitude l) = Inr (Fin d)"
    by blast
  have pos: "0 < real_of_int (tb - ta) / 60000" using assms(5) by simp
  have speed: "calculateRequiredSpeed (Fin d) (Fin (real_of_int (tb - ta) / 60000)) =
      Fin (d / (real_of_int (tb - ta) / 60000 / 60))"
    by (rule calculateRequiredSpeed_Fin [OF pos])
  have "isTravelPossible e l m p =
       (if p < 0 \<or> 100 < p then Inl RangeError
        else Inr \<lparr> possible = num_le (Fin (d / (real_of_int (tb - ta) / 60000 / 60))) m,
                   requiredSpeedKmh =
                     roundNumber (Fin (d / (real_of_int (tb - ta) / 60000 / 60))) (nat p),
                   maxAllowedSpeedKmh = m,
                   distanceKm = roundNumber (Fin d) (nat p),
                   timeDifferenceMinutes =
                     roundNumber (Fin (real_of_int (tb - ta) / 60000)) (nat p) \<rparr>)"
    unfolding isTravelPossible_ordered [OF assms(3,4,5)] d(2) sum.case speed toFixed_def
    by (simp del: roundNumber.simps)
  with d show ?thesis by blast
qed



lemma general_fields:
  assumes "validObservation e" "validObservation l"
      and "timestamp e = Date (Some ta)" "timestamp l = Date (Some tb)" "ta < tb"
      and "isTravelPossible e l m p = Inr r"
  obtains d where "0 \<le> d"
      "haversineDistance (latitude e) (longitude e) (latitude l) (longitude l) = Inr (Fin d)"
      "0 \<le> p" "p \<le> 100"
      "possible r = num_le (Fin (d / (real_of_int (tb - ta) / 60000 / 60))) m"
      "requiredSpeedKmh r = roundNumber (Fin (d / (real_of_int (tb - ta) / 60000 / 60))) (nat p)"
      "maxAllowedSpeedKmh r = m"
      "distanceKm r = roundNumber (Fin d) (nat p)"
      "timeDifferenceMinutes r = roundNumber (Fin (real_of_int (tb - ta) / 60000)) (nat p)"
proof -
  from isTravelPossible_general_valid [OF assms(1-5), of m p] obtain d
    where d: "0 \<le> d"
        "haversineDistance (latitude e) (longitude e) (latitude l) (longitude l) = Inr (Fin d)"
      and run: "isTravelPossible e l m p =
       (if p < 0 \<or> 100 < p then Inl RangeError
        else Inr \<lparr> possible = num_le (Fin (d / (real_of_int (tb - ta) / 60000 / 60))) m,
                   requiredSpeedKmh =
                     roundNumber (Fin (d / (real_of_int (tb - ta) / 60000 / 60))) (nat p),
                   maxAllowedSpeedKmh = m,
                   distanceKm = roundNumber (Fin d) (nat p),
                   timeDifferenceMinutes =
                     roundNumber (Fin (real_of_int (tb - ta) / 60000)) (nat p) \<rparr>)"
    by blast
  show thesis
  proof (cases "p < 0 \<or> 100 < p")
    case True
    with run assms(6) show thesis by simp
  next
    case False
    with run assms(6) have r: "r = \<lparr> possible = num_le (Fin (d / (real_of_int (tb - ta) / 60000 / 60))) m,
                   requiredSpeedKmh =
                     roundNumber (Fin (d / (real_of_int (tb - ta) / 60000 / 60))) (nat p),
                   maxAllowedSpeedKmh = m,
                   distanceKm = roundNumber (Fin d) (nat p),
                   timeDifferenceMinutes =
                     roundNumber (Fin (real_of_int (tb - ta) / 60000)) (nat p) \<rparr>"
      by (simp only: if_False sum.inject)
    show thesis
    proof (rule that [OF d])
      show "0 \<le> p" "p \<le> 100" using False by simp_all
    qed (simp_all only: r TravelPossibility.simps)
  qed
qed



lemma num_le_negative:
  assumes "0 \<le> x" "num_lt m (Fin 0)"
  shows "\<not> num_le (Fin x) m"
  using assms by (cases m) simp_all

section \<open>The speed ceiling\<close>

lemma isTravelPossible_maxSpeed_errors:
  "(isTravelPossible a b m p = Inl err) = (isTravelPossible a b m' p = Inl err)"
proof (cases "p < 0 \<or> 100 < p")
  case True
  then have tf: "toFixed x p = Inl RangeError" for x
    by (simp add: toFixed_def)
  show ?thesis
    unfolding isTravelPossible_def Let_def tf sum.case
    by (simp split: sum.splits)
next
  case False
  then have tf: "toFixed x p = Inr (roundNumber x (nat p))" for x
    by (simp add: toFixed_def)
  show ?thesis
    unfolding isTravelPossible_def Let_def tf sum.case
    by (simp split: sum.splits)
qed

lemma isTravelPossible_maxSpeed_echo:
  assumes "isTravelPossible a b m p = Inr r"
  shows "maxAllowedSpeedKmh r = m"
proof (cases "p < 0 \<or> 100 < p")
  case True
  then have tf: "toFixed x p = Inl RangeError" for x
    by (simp add: toFixed_def)
  show ?thesis
    using assms unfolding isTravelPossible_def Let_def tf sum.case
    by (auto split: sum.splits if_splits)
next
  case False
  then have tf: "toFixed x p = Inr (roundNumber x (nat p))" for x
    by (simp add: toFixed_def)
  show ?thesis
    using assms unfolding isTravelPossible_def Let_def tf sum.case
    by (auto split: sum.splits if_splits)
qed

section \<open>Evaluation at concrete inputs\<close>

lemmas eval_defs = isTravelPossible_def haversineDistance_def validateCoordinates_def
  toRadians_def calculateRequiredSpeed_def toFixed_def num_gt_def num_eq_def num_sub_def
  num_sq_def Math_PI_def EARTH_RADIUS_KM_def atan2_real_def roundMagnitude_def Let_def

lemmas valid_defs = validObservation_def validLatitude_def validLongitude_def

lemma haversineDistance_half_turn:
  "haversineDistance (Fin 0) (Fin 0) (Fin 0) (Fin 180) = Inr (Fin (6371 * pi))"
  by (simp add: haversineDistance_def validateCoordinates_def toRadians_def num_gt_def
        num_sub_def num_sq_def Math_PI_def EARTH_RADIUS_KM_def atan2_real_def Let_def)

section \<open>Coordinate validation\<close>

text \<open>
  What the program does check: \<^verbatim>\<open>haversineDistance\<close> rejects a pair of points when
  either fails \<^verbatim>\<open>validateCoordinates\<close>, and \<^verbatim>\<open>isTravelPossible\<close> passes the error on
  whenever it reaches \<^verbatim>\<open>haversineDistance\<close>: for two \<^verbatim>\<open>Date\<close>s with time values that
  differ, or that are equal while the coordinates differ.
\<close>

lemma validateCoordinates_cases:
  "validateCoordinates lat lon = Inr () \<or>
   (\<exists>e. validateCoordinates lat lon = Inl e \<and> isInvalidCoordinate e)"
  by (simp add: validateCoordinates_def)

lemma haversineDistance_rejects:
  assumes "validateCoordinates lat1 lon1 \<noteq> Inr () \<or> validateCoordinates lat2 lon2 \<noteq> Inr ()"
  shows "\<exists>e. haversineDistance lat1 lon1 lat2 lon2 = Inl e \<and> isInvalidCoordinate e"
proof (cases "validateCoordinates lat1 lon1")
  case (Inl e)
  with validateCoordinates_cases [of lat1 lon1] show ?thesis
    by (simp add: haversineDistance_def)
next
  case first: (Inr u)
  with assms obtain e where "validateCoordinates lat2 lon2 = Inl e" "isInvalidCoordinate e"
    using validateCoordinates_cases [of lat2 lon2] by auto
  with first show ?thesis
    by (simp add: haversineDistance_def)
qed

lemma invalid_coordinate_rejected:
  assumes "timestamp a = Date (Some ta)" "timestamp b = Date (Some tb)"
      and "validateCoordinates (latitude a) (longitude a) \<noteq> Inr () \<or>
           validateCoordinates (latitude b) (longitude b) \<noteq> Inr ()"
      and "ta \<noteq> tb \<or>
           \<not> (num_eq (latitude a) (latitude b) \<and> num_eq (longitude a) (longitude b))"
  shows "\<exists>e. isTravelPossible a b m p = Inl e \<and> isInvalidCoordinate e"
proof -
  from assms(3) obtain e1
    where e1: "haversineDistance (latitude a) (longitude a) (latitude b) (longitude b) = Inl e1"
      "isInvalidCoordinate e1"
    using haversineDistance_rejects by blast
  from assms(3) obtain e2
    where e2: "haversineDistance (latitude b) (longitude b) (latitude a) (longitude a) = Inl e2"
      "isInvalidCoordinate e2"
    using haversineDistance_rejects [of "latitude b" "longitude b" "latitude a" "longitude a"]
    by blast
  consider "ta = tb" | "ta < tb" | "tb < ta" by linarith
  then show ?thesis
  proof cases
    case 1
    with assms(4)
    have apart: "\<not> (num_eq (latitude a) (latitude b) \<and> num_eq (longitude a) (longitude b))"
      by simp
    have "isTravelPossible a b m p = Inl e1"
      unfolding isTravelPossible_tie [OF assms(1) assms(2) [folded 1]] e1(1)
      using apart by simp
    with e1(2) show ?thesis by blast
  next
    case 2
    have "isTravelPossible a b m p = Inl e1"
      unfolding isTravelPossible_ordered [OF assms(1,2) 2] e1(1) by simp
    with e1(2) show ?thesis by blast
  next
    case 3
    then have "isTravelPossible a b m p = isTravelPossible b a m p"
      by (intro isTravelPossible_swap_distinct [OF assms(2,1)]) simp
    also have "\<dots> = Inl e2"
      unfolding isTravelPossible_ordered [OF assms(2,1) 3] e2(1) by simp
    finally show ?thesis using e2(2) by blast
  qed
qed

text \<open>
  Claim C1 says that every pair with a latitude outside \<open>[-90, 90]\<close> or a longitude
  outside \<open>[-180, 180]\<close> fails with an invalid-coordinate error, also when the two
  observations share timestamp and coordinates. The program returns early on that very
  case, before any call of \<^verbatim>\<open>validateCoordinates\<close>: two observations at latitude 100
  with the same timestamp give a successful result, although \<^verbatim>\<open>validateCoordinates\<close>
  rejects latitude 100.
\<close>

theorem same_place_same_time_skips_coordinate_check:
  "isTravelPossible
     \<lparr>timestamp = Date (Some 0), latitude = Fin 100, longitude = Fin 0\<rparr>
     \<lparr>timestamp = Date (Some 0), latitude = Fin 100, longitude = Fin 0\<rparr>
     (Fin 1200) 2 =
   Inr \<lparr> possible = True, requiredSpeedKmh = Fin 0, maxAllowedSpeedKmh = Fin 1200,
         distanceKm = Fin 0, timeDifferenceMinutes = Fin 0 \<rparr> \<and>
   validateCoordinates (Fin 100) (Fin 0) = Inl (InvalidLatitude (Fin 100))"
  by (simp add: isTravelPossible_def validateCoordinates_def num_gt_def num_eq_def num_sub_def
        Let_def)

theorem same_place_same_time_skips_coordinate_check_witness:
  "\<forall>e. isTravelPossible
     \<lparr>timestamp = Date (Some 0), latitude = Fin 100, longitude = Fin 0\<rparr>
     \<lparr>timestamp = Date (Some 0), latitude = Fin 100, longitude = Fin 0\<rparr>
     (Fin 1200) 2 \<noteq> Inl e"
  using same_place_same_time_skips_coordinate_check by simp

section \<open>Timestamp validation\<close>

text \<open>
  Claim C2 says that a timestamp that is no genuine instant makes the call fail with the
  invalid-timestamp error. The program only tests \<^verbatim>\<open>instanceof Date\<close>, which an
  "Invalid Date" (time value \<^verbatim>\<open>NaN\<close>) passes. Both comparisons with \<^verbatim>\<open>NaN\<close> are false,
  so the second observation becomes the earlier and the later one: with the invalid
  date first the call reports a feasible trip of distance 0 between points that are
  apart, with the invalid date second it returns \<^verbatim>\<open>NaN\<close> fields. Neither call fails.
\<close>

theorem invalid_date_not_rejected:
  "isTravelPossible
     \<lparr>timestamp = Date None, latitude = Fin 0, longitude = Fin 0\<rparr>
     \<lparr>timestamp = Date (Some 0), latitude = Fin 10, longitude = Fin 10\<rparr>
     (Fin 1200) 2 =
   Inr \<lparr> possible = True, requiredSpeedKmh = Fin 0, maxAllowedSpeedKmh = Fin 1200,
         distanceKm = Fin 0, timeDifferenceMinutes = Fin 0 \<rparr> \<and>
   isTravelPossible
     \<lparr>timestamp = Date (Some 0), latitude = Fin 10, longitude = Fin 10\<rparr>
     \<lparr>timestamp = Date None, latitude = Fin 0, longitude = Fin 0\<rparr>
     (Fin 1200) 2 =
   Inr \<lparr> possible = False, requiredSpeedKmh = NaN, maxAllowedSpeedKmh = Fin 1200,
         distanceKm = Fin 0, timeDifferenceMinutes = NaN \<rparr>"
  by (simp add: eval_defs)

theorem invalid_date_not_rejected_witness:
  "isTravelPossible
     \<lparr>timestamp = Date None, latitude = Fin 0, longitude = Fin 0\<rparr>
     \<lparr>timestamp = Date (Some 0), latitude = Fin 10, longitude = Fin 10\<rparr>
     (Fin 1200) 2 \<noteq> Inl InvalidTimestamp \<and>
   isTravelPossible
     \<lparr>timestamp = Date (Some 0), latitude = Fin 10, longitude = Fin 10\<rparr>
     \<lparr>timestamp = Date None, latitude = Fin 0, longitude = Fin 0\<rparr>
     (Fin 1200) 2 \<noteq> Inl InvalidTimestamp"
  using invalid_date_not_rejected by simp

text \<open>
  Claim C9. The timestamp test comes first: when either timestamp is not a \<^verbatim>\<open>Date\<close> the
  call fails with the timestamp error whatever the coordinates are, also when a
  coordinate is out of range.
\<close>

theorem timestamp_check_first:
  assumes "\<not> instanceofDate (timestamp a) \<or> \<not> instanceofDate (timestamp b)"
  shows "isTravelPossible a b m p = Inl InvalidTimestamp"
  using assms by (simp add: isTravelPossible_def)

theorem timestamp_check_first_witness:
  "isTravelPossible
     \<lparr>timestamp = Date (Some 0), latitude = Fin 100, longitude = Fin 200\<rparr>
     \<lparr>timestamp = NotADate, latitude = Fin 0, longitude = Fin 0\<rparr>
     (Fin 1200) 2 = Inl InvalidTimestamp \<and>
   validateCoordinates (Fin 100) (Fin 200) = Inl (InvalidLatitude (Fin 100))"
  using timestamp_check_first
      [of "\<lparr>timestamp = Date (Some 0), latitude = Fin 100, longitude = Fin 200\<rparr>"
          "\<lparr>timestamp = NotADate, latitude = Fin 0, longitude = Fin 0\<rparr>"
          "Fin 1200" 2]
  by (simp add: validateCoordinates_def num_gt_def)

section \<open>The general branch\<close>



section \<open>Order of the arguments\<close>



section \<open>The zero-time branch\<close>



section \<open>The feasibility boundary\<close>



section \<open>Symmetry of the distance\<close>



section \<open>Signs of the results\<close>



section \<open>The ceiling is not validated\<close>

text \<open>
  Claim C10 says that the speed ceiling is never validated and that \<open>possible\<close> is
  computed as required speed \<open>\<le>\<close> ceiling for every ceiling, negative and infinite
  ones included. In the zero-time branch the flag is a constant of the branch: with
  a negative ceiling two observations at the same place and time are feasible although
  the returned speed 0 is above the ceiling, and with an infinite ceiling two
  observations at the same time in different places are infeasible although the
  returned speed, infinite, is not above the ceiling.
\<close>

theorem ceiling_comparison_counterexample:
  "isTravelPossible
     \<lparr>timestamp = Date (Some 0), latitude = Fin 0, longitude = Fin 0\<rparr>
     \<lparr>timestamp = Date (Some 0), latitude = Fin 0, longitude = Fin 0\<rparr>
     (Fin (- 1)) 2 =
   Inr \<lparr> possible = True, requiredSpeedKmh = Fin 0, maxAllowedSpeedKmh = Fin (- 1),
         distanceKm = Fin 0, timeDifferenceMinutes = Fin 0 \<rparr> \<and>
   \<not> num_le (Fin 0) (Fin (- 1)) \<and>
   isTravelPossible
     \<lparr>timestamp = Date (Some 0), latitude = Fin 0, longitude = Fin 0\<rparr>
     \<lparr>timestamp = Date (Some 0), latitude = Fin 0, longitude = Fin 180\<rparr>
     PInf 2 =
   Inr \<lparr> possible = False, requiredSpeedKmh = PInf, maxAllowedSpeedKmh = PInf,
         distanceKm = roundNumber (Fin (6371 * pi)) 2, timeDifferenceMinutes = Fin 0 \<rparr> \<and>
   num_le PInf PInf"
proof -
  have dist: "haversineDistance (Fin 0) (Fin 0) (Fin 0) (Fin 180) = Inr (Fin (6371 * pi))"
    by (simp add: haversineDistance_def validateCoordinates_def toRadians_def num_gt_def
          num_sub_def num_sq_def Math_PI_def EARTH_RADIUS_KM_def atan2_real_def Let_def)
  show ?thesis
    by (simp add: isTravelPossible_def num_gt_def num_eq_def num_sub_def dist toFixed_def
          Let_def del: roundNumber.simps)
qed

text \<open>
  Claim C10, amended. Whether the call fails, and with which error, does not depend on
  the ceiling; a result carries the ceiling as passed. For valid observations with
  different timestamps \<open>possible\<close> is the comparison of the unrounded required speed
  with the ceiling, so a negative ceiling makes every such pair infeasible. For two
  \<^verbatim>\<open>Date\<close>s with equal time values \<open>possible\<close> does not depend on the ceiling: it is true
  exactly when latitudes and longitudes are identical.
\<close>

theorem maxSpeed_not_validated:
  "((isTravelPossible a b m p = Inl err) = (isTravelPossible a b m' p = Inl err)) \<and>
   (isTravelPossible a b m p = Inr r \<longrightarrow>
      maxAllowedSpeedKmh r = m \<and>
      (validObservation a \<and> validObservation b \<and>
       timestamp a = Date (Some ta) \<and> timestamp b = Date (Some tb) \<and> ta \<noteq> tb \<longrightarrow>
         (\<exists>dKm.
            (if ta < tb
             then haversineDistance (latitude a) (longitude a) (latitude b) (longitude b)
             else haversineDistance (latitude b) (longitude b) (latitude a) (longitude a))
              = Inr dKm \<and>
            possible r =
              num_le (calculateRequiredSpeed dKm (Fin (real_of_int \<bar>tb - ta\<bar> / 60000))) m) \<and>
         (num_lt m (Fin 0) \<longrightarrow> \<not> possible r)) \<and>
      (timestamp a = Date (Some t) \<and> timestamp b = Date (Some t) \<longrightarrow>
         possible r =
           (num_eq (latitude a) (latitude b) \<and> num_eq (longitude a) (longitude b))))"
proof -
  have errors: "(isTravelPossible a b m p = Inl err) = (isTravelPossible a b m' p = Inl err)"
    by (rule isTravelPossible_maxSpeed_errors)
  have echo: "maxAllowedSpeedKmh r = m" if "isTravelPossible a b m p = Inr r"
    using that by (rule isTravelPossible_maxSpeed_echo)
  have tie: "possible r =
      (num_eq (latitude a) (latitude b) \<and> num_eq (longitude a) (longitude b))"
    if run: "isTravelPossible a b m p = Inr r"
      and t: "timestamp a = Date (Some t)" "timestamp b = Date (Some t)"
    using run unfolding isTravelPossible_tie [OF t]
    by (auto split: if_splits sum.splits)
  have ordered:
    "(\<exists>dKm. haversineDistance (latitude e) (longitude e) (latitude l) (longitude l) = Inr dKm \<and>
        possible r = num_le (calculateRequiredSpeed dKm (Fin (real_of_int (tl' - te) / 60000))) m) \<and>
     (num_lt m (Fin 0) \<longrightarrow> \<not> possible r)"
    if v: "validObservation e" "validObservation l"
      and ts: "timestamp e = Date (Some te)" "timestamp l = Date (Some tl')" "te < tl'"
      and res: "isTravelPossible e l m p = Inr r"
    for e l te tl'
  proof -
    from v ts res obtain d where d: "0 \<le> d"
      and hav: "haversineDistance (latitude e) (longitude e) (latitude l) (longitude l) = Inr (Fin d)"
      and flag: "possible r = num_le (Fin (d / (real_of_int (tl' - te) / 60000 / 60))) m"
      by (rule general_fields)
    have pos: "0 < real_of_int (tl' - te) / 60000" using ts(3) by simp
    have speed: "calculateRequiredSpeed (Fin d) (Fin (real_of_int (tl' - te) / 60000)) =
        Fin (d / (real_of_int (tl' - te) / 60000 / 60))"
      by (rule calculateRequiredSpeed_Fin [OF pos])
    have "0 \<le> d / (real_of_int (tl' - te) / 60000 / 60)"
      using d pos by simp
    then have "\<not> possible r" if "num_lt m (Fin 0)"
      unfolding flag using that by (intro num_le_negative)
    moreover have "possible r =
        num_le (calculateRequiredSpeed (Fin d) (Fin (real_of_int (tl' - te) / 60000))) m"
      by (simp only: flag speed)
    ultimately show ?thesis using hav by blast
  qed
  have general: "(\<exists>dKm.
            (if ta < tb
             then haversineDistance (latitude a) (longitude a) (latitude b) (longitude b)
             else haversineDistance (latitude b) (longitude b) (latitude a) (longitude a))
              = Inr dKm \<and>
            possible r =
              num_le (calculateRequiredSpeed dKm (Fin (real_of_int \<bar>tb - ta\<bar> / 60000))) m) \<and>
         (num_lt m (Fin 0) \<longrightarrow> \<not> possible r)"
    if run: "isTravelPossible a b m p = Inr r"
      and valid: "validObservation a" "validObservation b"
      and times: "timestamp a = Date (Some ta)" "timestamp b = Date (Some tb)"
      and ne: "ta \<noteq> tb"
  proof (cases "ta < tb")
    case True
    then have abs: "\<bar>tb - ta\<bar> = tb - ta" by simp
    show ?thesis
      unfolding if_P [OF True] abs by (rule ordered [OF valid times True run])
  next
    case False
    with ne have lt: "tb < ta" by simp
    then have abs: "\<bar>tb - ta\<bar> = ta - tb" by simp
    have "isTravelPossible b a m p = isTravelPossible a b m p"
      using ne by (intro isTravelPossible_swap_distinct [OF times])
    with run have "isTravelPossible b a m p = Inr r" by simp
    then show ?thesis
      unfolding if_not_P [OF False] abs by (rule ordered [OF valid(2,1) times(2,1) lt])
  qed
  show ?thesis
    using errors echo tie general by blast
qed

theorem maxSpeed_not_validated_witness:
  "isTravelPossible
     \<lparr>timestamp = Date (Some 0), latitude = Fin 0, longitude = Fin 0\<rparr>
     \<lparr>timestamp = Date (Some 3600000), latitude = Fin 0, longitude = Fin 180\<rparr>
     (Fin (- 1)) 2 =
   Inr \<lparr> possible = False,
         requiredSpeedKmh = roundNumber (Fin (6371 * pi)) 2,
         maxAllowedSpeedKmh = Fin (- 1),
         distanceKm = roundNumber (Fin (6371 * pi)) 2,
         timeDifferenceMinutes = Fin 60 \<rparr> \<and>
   num_lt (Fin (- 1)) (Fin 0)"
proof -
  have far: "\<not> 6371 * pi \<le> - 1"
    using pi_ge_two by simp
  have run: "isTravelPossible
     \<lparr>timestamp = Date (Some 0), latitude = Fin 0, longitude = Fin 0\<rparr>
     \<lparr>timestamp = Date (Some 3600000), latitude = Fin 0, longitude = Fin 180\<rparr>
     (Fin (- 1)) 2 =
   Inr \<lparr> possible = False,
         requiredSpeedKmh = roundNumber (Fin (6371 * pi)) 2,
         maxAllowedSpeedKmh = Fin (- 1),
         distanceKm = roundNumber (Fin (6371 * pi)) 2,
         timeDifferenceMinutes = Fin 60 \<rparr>"
    by (simp add: isTravelPossible_def num_gt_def num_eq_def num_sub_def
          haversineDistance_half_turn far calculateRequiredSpeed_def toFixed_def
          roundMagnitude_def Let_def)
  from maxSpeed_not_validated
        [of "\<lparr>timestamp = Date (Some 0), latitude = Fin 0, longitude = Fin 0\<rparr>"
            "\<lparr>timestamp = Date (Some 3600000), latitude = Fin 0, longitude = Fin 180\<rparr>"
            "Fin (- 1)" 2 RangeError "Fin 1200" _ 0 3600000 0]
  have "\<not> possible \<lparr> possible = False,
         requiredSpeedKmh = roundNumber (Fin (6371 * pi)) 2,
         maxAllowedSpeedKmh = Fin (- 1),
         distanceKm = roundNumber (Fin (6371 * pi)) 2,
         timeDifferenceMinutes = Fin 60 \<rparr>"
    by (simp add: run valid_defs del: roundNumber.simps)
  with run show ?thesis by (simp del: roundNumber.simps)
qed

end
